theory Spec2Isabelle
  imports Main "HOL-Library.Sublist"
begin

section \<open>Python values and exceptions\<close>

text \<open>
  The values that travel through \<open>streamlit.py\<close> are decoded JSON documents: \<open>None\<close>,
  booleans, integers, strings, lists and dicts with string keys. A dict is kept as an
  association list in insertion order and read with \<open>map_of\<close>. Strings are byte lists
  (UTF-8). JSON numbers with a fraction are outside this datatype.
\<close>

datatype json =
    JNull
  | JBool bool
  | JNum int
  | JStr string
  | JArr "json list"
  | JObj "(string \<times> json) list"

text \<open>
  \<open>RequestException\<close> stands for \<open>requests.exceptions.RequestException\<close> and all its
  subclasses (\<open>ConnectionError\<close>, \<open>Timeout\<close>, \<open>HTTPError\<close>, ...); the string is \<open>str(e)\<close>.
  \<open>OtherException\<close> is any exception that is not a \<open>RequestException\<close> and is not one of
  the three built-in classes named here.
\<close>

datatype exn =
    RequestException string
  | AttributeError
  | KeyError
  | TypeError
  | OtherException string

type_synonym 'a result = "exn + 'a"

text \<open>\<open>d.get(k, default)\<close>: only a dict has the method.\<close>

fun py_get :: "json \<Rightarrow> string \<Rightarrow> json \<Rightarrow> json result" where
  "py_get (JObj kvs) k d = Inr (case map_of kvs k of Some v \<Rightarrow> v | None \<Rightarrow> d)"
| "py_get _ k d = Inl AttributeError"

text \<open>\<open>x[k]\<close> with a string \<open>k\<close>: \<open>KeyError\<close> on a dict without the key, \<open>TypeError\<close> on
  a list, a string, a number, a boolean or \<open>None\<close>.\<close>

fun py_getitem :: "json \<Rightarrow> string \<Rightarrow> json result" where
  "py_getitem (JObj kvs) k = (case map_of kvs k of Some v \<Rightarrow> Inr v | None \<Rightarrow> Inl KeyError)"
| "py_getitem _ k = Inl TypeError"

text \<open>\<open>k in x\<close> with a string \<open>k\<close>: key membership on a dict, element membership on a
  list, substring test on a string, \<open>TypeError\<close> on anything else.\<close>

fun py_in :: "string \<Rightarrow> json \<Rightarrow> bool result" where
  "py_in k (JObj kvs) = Inr (k \<in> fst ` set kvs)"
| "py_in k (JArr xs) = Inr (JStr k \<in> set xs)"
| "py_in k (JStr s) = Inr (sublist k s)"
| "py_in k _ = Inl TypeError"

text \<open>\<open>for x in v\<close>: the elements of a list, the keys of a dict, the characters of a
  string; \<open>TypeError\<close> on anything else.\<close>

fun py_iter :: "json \<Rightarrow> json list result" where
  "py_iter (JArr xs) = Inr xs"
| "py_iter (JObj kvs) = Inr (map (\<lambda>kv. JStr (fst kv)) kvs)"
| "py_iter (JStr s) = Inr (map (\<lambda>c. JStr [c]) s)"
| "py_iter _ = Inl TypeError"

text \<open>Decimal digits of a natural number and of an integer, as \<open>str\<close> prints them.\<close>

fun digits :: "nat \<Rightarrow> string" where
  "digits n =
     (if n < 10 then [char_of (48 + n)]
      else digits (n div 10) @ [char_of (48 + n mod 10)])"

declare digits.simps [simp del]

definition str_int :: "int \<Rightarrow> string" where
  "str_int i = (if i < 0 then CHR ''-'' # digits (nat (- i)) else digits (nat i))"

text \<open>
  \<open>str(v)\<close>, which is what an f-string field \<open>{v}\<close> prints. A string prints as itself.
  A list or a dict prints through \<open>repr\<close> of its parts, with Python's quoting and
  escaping rules; that builtin is taken as the parameter \<open>container_repr\<close>.
\<close>

fun py_str :: "(json \<Rightarrow> string) \<Rightarrow> json \<Rightarrow> string" where
  "py_str container_repr JNull = ''None''"
| "py_str container_repr (JBool b) = (if b then ''True'' else ''False'')"
| "py_str container_repr (JNum i) = str_int i"
| "py_str container_repr (JStr s) = s"
| "py_str container_repr v = container_repr v"

text \<open>\<open>v == "literal"\<close>: a string equals only the same string.\<close>

definition eq_str :: "json \<Rightarrow> string \<Rightarrow> bool" where
  "eq_str v s = (v = JStr s)"

section \<open>The remote API and the session\<close>

definition API_URL :: string where
  "API_URL = ''https://sweeping-moth-probably.ngrok-free.app/''"

text \<open>An uploaded file, as Streamlit hands it over: its name and its bytes.\<close>

record uploaded_file =
  name :: string
  getvalue :: string

datatype payload =
    Files "(string \<times> string \<times> string \<times> string) list"
  | Json json

datatype request =
    Post string payload
  | Get string

text \<open>
  What \<open>requests.get\<close>/\<open>requests.post\<close> hands back. \<open>http_error\<close> is the text of the
  \<open>HTTPError\<close> that \<open>raise_for_status()\<close> raises for a 4xx or 5xx status, \<open>None\<close> when the
  status is not an error. \<open>json_result\<close> is what \<open>response.json()\<close> does: it returns the
  decoded body or raises (which exception class depends on the installed \<open>requests\<close>).
\<close>

record response =
  http_error :: "string option"
  json_result :: "json result"

text \<open>
  Everything outside the program: the network (the call either raises or returns a
  response) and Python's \<open>repr\<close> of lists and dicts.
\<close>

record env =
  network :: "request \<Rightarrow> response result"
  repr :: "json \<Rightarrow> string"

text \<open>A transcript entry \<open>{"role": ..., "content": ...}\<close>.\<close>

record message =
  role :: string
  content :: json

text \<open>What the page shows, in the order the script writes it (only the calls that
  carry data; titles, headers, dividers and spinners are left out).\<close>

datatype ui_event =
    Chat_message string
  | Write json
  | Success json
  | Error json
  | Warning string
  | Info string
  | Text string
  | Markdown string
  | Caption string

text \<open>
  The state a script run works on: \<open>st.session_state.messages\<close>, the HTTP requests sent
  so far, and the page output so far.
\<close>

record app_state =
  messages :: "message list"
  requests :: "request list"
  ui :: "ui_event list"

text \<open>
  A statement is a function from the state to an outcome and the state left behind. The
  state survives an exception: what was appended or sent before the raise stays.
\<close>

type_synonym 'a prog = "app_state \<Rightarrow> 'a result \<times> app_state"

definition ret :: "'a \<Rightarrow> 'a prog" where
  "ret x = (\<lambda>s. (Inr x, s))"

definition raise :: "exn \<Rightarrow> 'a prog" where
  "raise e = (\<lambda>s. (Inl e, s))"

definition lift :: "'a result \<Rightarrow> 'a prog" where
  "lift r = (\<lambda>s. (r, s))"

definition bind :: "'a prog \<Rightarrow> ('a \<Rightarrow> 'b prog) \<Rightarrow> 'b prog" where
  "bind m f = (\<lambda>s. case m s of (Inl e, s') \<Rightarrow> (Inl e, s') | (Inr x, s') \<Rightarrow> f x s')"

text \<open>\<open>try: m except requests.exceptions.RequestException as e: h(str(e))\<close>\<close>

definition except_RequestException :: "'a prog \<Rightarrow> (string \<Rightarrow> 'a prog) \<Rightarrow> 'a prog" where
  "except_RequestException m h =
     (\<lambda>s. case m s of (Inl (RequestException msg), s') \<Rightarrow> h msg s' | r \<Rightarrow> r)"

text \<open>\<open>try: m except: h\<close> (a bare \<open>except\<close> catches every exception)\<close>

definition except_all :: "'a prog \<Rightarrow> 'a prog \<Rightarrow> 'a prog" where
  "except_all m h = (\<lambda>s. case m s of (Inl e, s') \<Rightarrow> h s' | r \<Rightarrow> r)"

definition send :: "env \<Rightarrow> request \<Rightarrow> response prog" where
  "send E req = (\<lambda>s. (network E req, s\<lparr>requests := requests s @ [req]\<rparr>))"

definition raise_for_status :: "response \<Rightarrow> unit prog" where
  "raise_for_status r =
     (case http_error r of Some msg \<Rightarrow> raise (RequestException msg) | None \<Rightarrow> ret ())"

definition emit :: "ui_event \<Rightarrow> unit prog" where
  "emit ev = (\<lambda>s. (Inr (), s\<lparr>ui := ui s @ [ev]\<rparr>))"

definition append_message :: "message \<Rightarrow> unit prog" where
  "append_message m = (\<lambda>s. (Inr (), s\<lparr>messages := messages s @ [m]\<rparr>))"

section \<open>The four API calls\<close>

definition error_dict :: "string \<Rightarrow> json" where
  "error_dict msg = JObj [(''status'', JStr ''error''), (''message'', JStr msg)]"

definition upload_pdfs :: "env \<Rightarrow> uploaded_file list \<Rightarrow> json prog" where
  "upload_pdfs E files =
     (if files = [] then ret (error_dict ''No files selected'')
      else
        let files_data = map (\<lambda>f. (''files'', name f, getvalue f, ''application/pdf'')) files
        in except_RequestException
             (bind (send E (Post (API_URL @ ''/upload_pdfs/'') (Files files_data))) (\<lambda>response.
              bind (raise_for_status response) (\<lambda>_.
              lift (json_result response))))
             (\<lambda>e. ret (error_dict (''API error: '' @ e))))"

definition query_rag :: "env \<Rightarrow> string \<Rightarrow> json \<Rightarrow> json prog" where
  "query_rag E query mode =
     except_RequestException
       (bind (send E (Post (API_URL @ ''/query/'')
                       (Json (JObj [(''query'', JStr query), (''mode'', mode)])))) (\<lambda>response.
        bind (raise_for_status response) (\<lambda>_.
        lift (json_result response))))
       (\<lambda>e. ret (error_dict (''API error: '' @ e)))"

definition check_api_status :: "env \<Rightarrow> json prog" where
  "check_api_status E =
     except_all
       (bind (send E (Get (API_URL @ ''/status/''))) (\<lambda>response.
        bind (raise_for_status response) (\<lambda>_.
        lift (json_result response))))
       (ret (error_dict ''API is not available''))"

definition mode_dict :: "string \<Rightarrow> string \<Rightarrow> json" where
  "mode_dict n d = JObj [(''name'', JStr n), (''description'', JStr d)]"

definition get_available_modes :: "env \<Rightarrow> json prog" where
  "get_available_modes E =
     except_all
       (bind (send E (Get (API_URL @ ''/modes/''))) (\<lambda>response.
        bind (raise_for_status response) (\<lambda>_.
        lift (json_result response))))
       (ret (JObj
          [(''available_modes'', JArr
             [mode_dict ''hybrid'' ''Combines local and global approaches'',
              mode_dict ''local'' ''Uses local context for retrieving relevant information'',
              mode_dict ''global'' ''Uses global context for broader information retrieval'',
              mode_dict ''naive'' ''Simple text matching without context awareness'',
              mode_dict ''mix'' ''Mix of different search strategies'']),
           (''default_mode'', JStr ''hybrid'')]))"

section \<open>The page script\<close>

text \<open>
  Streamlit runs the script from top to bottom on every interaction. What the widgets
  return on one run is the input of that run: the files in the uploader, whether the
  "Process PDFs" button reports a click, what the mode selectbox returns (for the
  options and the index it is given), and the text of the chat input, if any. The
  display calls (\<open>st.write\<close>, \<open>st.error\<close>, ...) are taken not to raise.
\<close>

record inputs =
  uploaded_files :: "uploaded_file list"
  process_clicked :: bool
  selectbox :: "json list \<Rightarrow> nat \<Rightarrow> json"
  chat_input :: "string option"

text \<open>\<open>if "messages" not in st.session_state: st.session_state.messages = []\<close>\<close>

definition init_messages :: "message list option \<Rightarrow> message list" where
  "init_messages session = (case session of None \<Rightarrow> [] | Some ms \<Rightarrow> ms)"

text \<open>\<open>api_ready = api_status.get("status") == "ready"\<close>\<close>

definition api_ready_of :: "json \<Rightarrow> bool result" where
  "api_ready_of api_status =
     (case py_get api_status ''status'' JNull of
        Inl e \<Rightarrow> Inl e
      | Inr v \<Rightarrow> Inr (eq_str v ''ready''))"

fun for_each :: "('a \<Rightarrow> unit prog) \<Rightarrow> 'a list \<Rightarrow> unit prog" where
  "for_each body [] = ret ()"
| "for_each body (x # xs) = bind (body x) (\<lambda>_. for_each body xs)"

subsection \<open>Upload\<close>

text \<open>The two markers are U+2705 and U+274C, written as their UTF-8 bytes.\<close>

definition success_marker :: string where
  "success_marker = [char_of (0xE2::nat), char_of (0x9C::nat), char_of (0x85::nat)]"

definition failure_marker :: string where
  "failure_marker = [char_of (0xE2::nat), char_of (0x9D::nat), char_of (0x8C::nat)]"

text \<open>\<open>status_icon = "\<dots>" if file_result["status"] == "success" else "\<dots>"\<close>, as a
  function of the value of \<open>file_result["status"]\<close>.\<close>

definition status_icon :: "json \<Rightarrow> string" where
  "status_icon status = (if eq_str status ''success'' then success_marker else failure_marker)"

definition show_file_result :: "env \<Rightarrow> json \<Rightarrow> unit prog" where
  "show_file_result E file_result =
     bind (lift (py_getitem file_result ''status'')) (\<lambda>status.
     bind (lift (py_getitem file_result ''file'')) (\<lambda>file.
     emit (Text (status_icon status @ '' '' @ py_str (repr E) file))))"

definition process_pdfs :: "env \<Rightarrow> uploaded_file list \<Rightarrow> unit prog" where
  "process_pdfs E files =
     bind (upload_pdfs E files) (\<lambda>result.
     bind (lift (py_get result ''status'' JNull)) (\<lambda>status.
     if eq_str status ''success'' then
       bind (lift (py_get result ''message'' JNull)) (\<lambda>msg.
       bind (emit (Success msg)) (\<lambda>_.
       bind (lift (py_in ''details'' result)) (\<lambda>has_details.
       if \<not> has_details then ret ()
       else
         bind (lift (py_getitem result ''details'')) (\<lambda>details.
         bind (lift (py_in ''results'' details)) (\<lambda>has_results.
         if \<not> has_results then ret ()
         else
           bind (lift (py_getitem details ''results'')) (\<lambda>results.
           bind (lift (py_iter results)) (\<lambda>file_results.
           for_each (show_file_result E) file_results)))))))
     else
       bind (lift (py_get result ''message'' (JStr ''Unknown error''))) (\<lambda>msg.
       emit (Error msg))))"

subsection \<open>Mode selection\<close>

text \<open>
  Dict keys need a hash: a list or a dict as a key raises \<open>TypeError\<close>. Two keys are the
  same key when they are equal in Python, where \<open>True == 1\<close> and \<open>False == 0\<close>.
\<close>

fun hashable :: "json \<Rightarrow> bool" where
  "hashable (JArr _) = False"
| "hashable (JObj _) = False"
| "hashable _ = True"

fun key_eq :: "json \<Rightarrow> json \<Rightarrow> bool" where
  "key_eq (JBool a) (JNum b) = ((if a then 1 else 0) = b)"
| "key_eq (JNum a) (JBool b) = (a = (if b then 1 else 0))"
| "key_eq a b = (a = b)"

text \<open>\<open>d[k] = v\<close> on an insertion-ordered dict: an existing key keeps its place (and
  its key object) and takes the new value, a new key goes to the end.\<close>

fun dict_set :: "json \<Rightarrow> json \<Rightarrow> (json \<times> json) list \<Rightarrow> (json \<times> json) list" where
  "dict_set k v [] = [(k, v)]"
| "dict_set k v (p # ps) = (if key_eq (fst p) k then (fst p, v) # ps else p # dict_set k v ps)"

text \<open>\<open>k in d\<close> and \<open>list(d.keys()).index(k)\<close> for a hashable \<open>k\<close>.\<close>

definition key_in :: "json \<Rightarrow> (json \<times> json) list \<Rightarrow> bool" where
  "key_in k d = (\<exists>p \<in> set d. key_eq (fst p) k)"

fun list_index :: "json list \<Rightarrow> json \<Rightarrow> nat option" where
  "list_index [] k = None"
| "list_index (x # xs) k =
     (if key_eq x k then Some 0 else map_option Suc (list_index xs k))"

text \<open>\<open>{mode["name"]: mode["description"] for mode in \<dots>}\<close>, one mode at a time.\<close>

fun build_mode_options :: "json list \<Rightarrow> (json \<times> json) list \<Rightarrow> (json \<times> json) list result" where
  "build_mode_options [] acc = Inr acc"
| "build_mode_options (mode # rest) acc =
     (case py_getitem mode ''name'' of
        Inl e \<Rightarrow> Inl e
      | Inr k \<Rightarrow>
          (case py_getitem mode ''description'' of
             Inl e \<Rightarrow> Inl e
           | Inr v \<Rightarrow>
               if hashable k then build_mode_options rest (dict_set k v acc)
               else Inl TypeError))"

definition mode_options_of :: "json \<Rightarrow> (json \<times> json) list result" where
  "mode_options_of modes =
     (case py_get modes ''available_modes'' (JArr []) of
        Inl e \<Rightarrow> Inl e
      | Inr available \<Rightarrow>
          (case py_iter available of
             Inl e \<Rightarrow> Inl e
           | Inr ms \<Rightarrow> build_mode_options ms []))"

text \<open>The \<open>index=\<close> argument of the selectbox:
  \<open>list(mode_options.keys()).index(default_mode) if default_mode in mode_options else 0\<close>.\<close>

definition selectbox_index :: "(json \<times> json) list \<Rightarrow> json \<Rightarrow> nat result" where
  "selectbox_index mode_options default_mode =
     (if \<not> hashable default_mode then Inl TypeError
      else if key_in default_mode mode_options then
        (case list_index (map fst mode_options) default_mode of
           Some i \<Rightarrow> Inr i
         | None \<Rightarrow> Inl (OtherException ''ValueError''))
      else Inr 0)"

definition select_mode :: "env \<Rightarrow> inputs \<Rightarrow> json prog" where
  "select_mode E inp =
     bind (get_available_modes E) (\<lambda>modes.
     bind (lift (mode_options_of modes)) (\<lambda>mode_options.
     bind (lift (py_get modes ''default_mode'' (JStr ''hybrid''))) (\<lambda>default_mode.
     bind (lift (selectbox_index mode_options default_mode)) (\<lambda>index.
     ret (selectbox inp (map fst mode_options) index)))))"

subsection \<open>Transcript and chat input\<close>

definition display_messages :: "unit prog" where
  "display_messages =
     (\<lambda>s. for_each (\<lambda>message.
             bind (emit (Chat_message (role message))) (\<lambda>_.
             emit (Write (content message))))
           (messages s) s)"

definition chat_input_handler :: "env \<Rightarrow> bool \<Rightarrow> json \<Rightarrow> string \<Rightarrow> unit prog" where
  "chat_input_handler E api_ready selected_mode prompt =
     bind (append_message \<lparr>role = ''user'', content = JStr prompt\<rparr>) (\<lambda>_.
     bind (emit (Chat_message ''user'')) (\<lambda>_.
     bind (emit (Write (JStr prompt))) (\<lambda>_.
     bind (emit (Chat_message ''assistant'')) (\<lambda>_.
     if api_ready then
       bind (query_rag E prompt selected_mode) (\<lambda>response.
       bind (lift (py_in ''response'' response)) (\<lambda>has_response.
       if has_response then
         bind (lift (py_getitem response ''response'')) (\<lambda>result.
         bind (emit (Write result)) (\<lambda>_.
         append_message \<lparr>role = ''assistant'', content = result\<rparr>))
       else
         bind (lift (py_get response ''message'' (JStr ''Unknown error occurred''))) (\<lambda>error_msg.
         bind (emit (Error (JStr (''Error: '' @ py_str (repr E) error_msg)))) (\<lambda>_.
         append_message
           \<lparr>role = ''assistant'',
            content = JStr (''Error: '' @ py_str (repr E) error_msg)\<rparr>))))
     else
       bind (emit (Warning ''Upload and process some PDFs broo!'')) (\<lambda>_.
       append_message
         \<lparr>role = ''assistant'', content = JStr ''Upload and process some PDFs broo!''\<rparr>)))))"

text \<open>\<open>if prompt := st.chat_input(\<dots>):\<close> runs the handler for a non-empty text.\<close>

definition chat :: "env \<Rightarrow> bool \<Rightarrow> json \<Rightarrow> string option \<Rightarrow> unit prog" where
  "chat E api_ready selected_mode inp =
     (case inp of
        None \<Rightarrow> ret ()
      | Some prompt \<Rightarrow>
          if prompt = [] then ret () else chat_input_handler E api_ready selected_mode prompt)"

subsection \<open>One run of the script\<close>

text \<open>The status line: \<open>f"API: <span style='color:{status_color};'>{status_text}</span>"\<close>.\<close>

definition status_markdown :: "bool \<Rightarrow> string" where
  "status_markdown api_ready =
     (let status_color = (if api_ready then ''green'' else ''red'');
          status_text = (if api_ready then ''Ready'' else ''Not Ready'')
      in ''API: <span style='' @ [char_of (39::nat)] @ ''color:'' @ status_color @ '';''
         @ [char_of (39::nat)] @ ''>'' @ status_text @ ''</span>'')"

definition page :: "env \<Rightarrow> inputs \<Rightarrow> unit prog" where
  "page E inp =
     bind (check_api_status E) (\<lambda>api_status.
     bind (lift (api_ready_of api_status)) (\<lambda>api_ready.
     bind (if process_clicked inp then process_pdfs E (uploaded_files inp) else ret ()) (\<lambda>_.
     bind (select_mode E inp) (\<lambda>selected_mode.
     bind (emit (Markdown (status_markdown api_ready))) (\<lambda>_.
     bind (if \<not> api_ready then emit (Info ''System is not ready. Upload some PDFs broo.'')
           else ret ()) (\<lambda>_.
     bind display_messages (\<lambda>_.
     bind (chat E api_ready selected_mode (chat_input inp)) (\<lambda>_.
     bind (emit (Markdown ''---'')) (\<lambda>_.
     emit (Caption (''Upload A LOT of PDF'' @ [char_of (39::nat)]
                    @ ''s cause u can'' @ [char_of (39::nat)]
                    @ ''t read on your own!'')))))))))))"

text \<open>
  A run starts from the session's transcript (absent in a new session) and leaves the
  transcript behind for the next run, whether the script finished or raised.
\<close>

definition script :: "env \<Rightarrow> inputs \<Rightarrow> message list option \<Rightarrow> unit result \<times> app_state" where
  "script E inp session =
     page E inp \<lparr>messages = init_messages session, requests = [], ui = []\<rparr>"

section \<open>Sample environments\<close>

text \<open>A server that cannot be reached: every call raises a \<open>ConnectionError\<close>.\<close>

definition unreachable :: env where
  "unreachable =
     \<lparr>network = (\<lambda>req. Inl (RequestException ''Connection refused'')),
      repr = (\<lambda>v. ''<repr>'')\<rparr>"

text \<open>A server that answers every call with status 200 and the JSON document \<open>body\<close>.\<close>

definition serving :: "json \<Rightarrow> env" where
  "serving body =
     \<lparr>network = (\<lambda>req. Inr \<lparr>http_error = None, json_result = Inr body\<rparr>),
      repr = (\<lambda>v. ''<repr>'')\<rparr>"

text \<open>A server that answers every call with an HTTP error status.\<close>

definition failing :: "string \<Rightarrow> env" where
  "failing msg =
     \<lparr>network = (\<lambda>req. Inr \<lparr>http_error = Some msg, json_result = Inr JNull\<rparr>),
      repr = (\<lambda>v. ''<repr>'')\<rparr>"

definition empty_state :: app_state where
  "empty_state = \<lparr>messages = [], requests = [], ui = []\<rparr>"

definition sample_file :: uploaded_file where
  "sample_file = \<lparr>name = ''a.pdf'', getvalue = ''%PDF''\<rparr>"


section \<open>Notions used in the statements\<close>

text \<open>
  A call fails when the request raises, when the response has an HTTP error status, or
  when its body cannot be decoded.
\<close>

definition call_fails :: "env \<Rightarrow> request \<Rightarrow> bool" where
  "call_fails E req =
     (case network E req of
        Inl e \<Rightarrow> True
      | Inr r \<Rightarrow> http_error r \<noteq> None \<or> isl (json_result r))"

text \<open>The requests that \<open>query_rag\<close> and \<open>upload_pdfs\<close> send (see \<open>query_rag_state\<close>
  and \<open>upload_pdfs_state\<close> below).\<close>

definition query_request :: "string \<Rightarrow> json \<Rightarrow> request" where
  "query_request query mode =
     Post (API_URL @ ''/query/'') (Json (JObj [(''query'', JStr query), (''mode'', mode)]))"

definition upload_request :: "uploaded_file list \<Rightarrow> request" where
  "upload_request files =
     Post (API_URL @ ''/upload_pdfs/'')
       (Files (map (\<lambda>f. (''files'', name f, getvalue f, ''application/pdf'')) files))"

text \<open>A result of the shape \<open>{"status": "error", "message": \<dots>}\<close>.\<close>

definition is_error_result :: "json \<Rightarrow> bool" where
  "is_error_result v =
     (case v of
        JObj kvs \<Rightarrow> map_of kvs ''status'' = Some (JStr ''error'') \<and> map_of kvs ''message'' \<noteq> None
      | _ \<Rightarrow> False)"

text \<open>A statement only appends to the transcript: what was there stays, in place.\<close>

definition appends_only :: "'a prog \<Rightarrow> bool" where
  "appends_only m = (\<forall>s. prefix (messages s) (messages (snd (m s))))"

text \<open>A statement leaves the transcript as it is.\<close>

definition keeps_transcript :: "'a prog \<Rightarrow> bool" where
  "keeps_transcript m = (\<forall>s. messages (snd (m s)) = messages s)"


section \<open>Properties of the API calls\<close>

lemmas prog_defs = ret_def raise_def lift_def bind_def except_RequestException_def
  except_all_def send_def raise_for_status_def emit_def append_message_def

lemma query_rag_state:
  "snd (query_rag E q m s) = s\<lparr>requests := requests s @ [query_request q m]\<rparr>"
  by (simp add: query_rag_def query_request_def prog_defs
      split: sum.splits option.splits exn.splits)

lemma query_rag_run:
  "query_rag E q m s =
     (fst (query_rag E q m s0),
      s\<lparr>requests := requests s @
         [Post (API_URL @ ''/query/'') (Json (JObj [(''query'', JStr q), (''mode'', m)]))]\<rparr>)"
  by (simp add: query_rag_def prog_defs split: sum.splits option.splits exn.splits)

lemma upload_pdfs_state:
  "files \<noteq> [] \<Longrightarrow>
   snd (upload_pdfs E files s) = s\<lparr>requests := requests s @ [upload_request files]\<rparr>"
  by (simp add: upload_pdfs_def upload_request_def prog_defs Let_def
      split: sum.splits option.splits exn.splits)

lemma check_api_status_fails:
  "call_fails E (Get (API_URL @ ''/status/'')) \<Longrightarrow>
   fst (check_api_status E s) = Inr (error_dict ''API is not available'')"
  by (auto simp: check_api_status_def call_fails_def prog_defs isl_def
      split: sum.splits option.splits)

text \<open>
  C6: \<open>upload_pdfs\<close> with no file selected returns the error result
  \<open>{"status": "error", "message": "No files selected"}\<close> and leaves the state as it
  was, so no request is sent.
\<close>

theorem upload_pdfs_no_files:
  "upload_pdfs E [] s =
     (Inr (JObj [(''status'', JStr ''error''), (''message'', JStr ''No files selected'')]), s)"
  by (simp add: upload_pdfs_def ret_def error_dict_def)

text \<open>
  C2: whenever the call to the modes endpoint fails, \<open>get_available_modes\<close> returns the
  built-in result: the modes hybrid, local, global, naive and mix, in this order and
  with their fixed descriptions, and the default mode "hybrid".
\<close>

theorem get_available_modes_fallback:
  assumes "call_fails E (Get (API_URL @ ''/modes/''))"
  shows "fst (get_available_modes E s) =
     Inr (JObj
       [(''available_modes'', JArr
          [JObj [(''name'', JStr ''hybrid''),
                 (''description'', JStr ''Combines local and global approaches'')],
           JObj [(''name'', JStr ''local''),
                 (''description'', JStr ''Uses local context for retrieving relevant information'')],
           JObj [(''name'', JStr ''global''),
                 (''description'', JStr ''Uses global context for broader information retrieval'')],
           JObj [(''name'', JStr ''naive''),
                 (''description'', JStr ''Simple text matching without context awareness'')],
           JObj [(''name'', JStr ''mix''),
                 (''description'', JStr ''Mix of different search strategies'')]]),
        (''default_mode'', JStr ''hybrid'')])"
  using assms
  by (auto simp: get_available_modes_def call_fails_def prog_defs mode_dict_def isl_def
      split: sum.splits option.splits)

theorem get_available_modes_fallback_witness:
  "call_fails unreachable (Get (API_URL @ ''/modes/'')) \<and>
   fst (get_available_modes unreachable empty_state) =
     Inr (JObj
       [(''available_modes'', JArr
          [JObj [(''name'', JStr ''hybrid''),
                 (''description'', JStr ''Combines local and global approaches'')],
           JObj [(''name'', JStr ''local''),
                 (''description'', JStr ''Uses local context for retrieving relevant information'')],
           JObj [(''name'', JStr ''global''),
                 (''description'', JStr ''Uses global context for broader information retrieval'')],
           JObj [(''name'', JStr ''naive''),
                 (''description'', JStr ''Simple text matching without context awareness'')],
           JObj [(''name'', JStr ''mix''),
                 (''description'', JStr ''Mix of different search strategies'')]]),
        (''default_mode'', JStr ''hybrid'')])"
proof -
  have f: "call_fails unreachable (Get (API_URL @ ''/modes/''))"
    by (simp add: call_fails_def unreachable_def)
  from f get_available_modes_fallback [OF f, of empty_state] show ?thesis by simp
qed

text \<open>
  C1, as the claim states it, fails: a body that decodes but has an unexpected shape is
  not converted. A server that answers the query with \<open>{"answer": "42"}\<close> gets that
  document handed to the caller as it is, and it is not of the shape
  \<open>{"status": "error", "message": \<dots>}\<close>.
\<close>

theorem query_rag_malformed_counterexample:
  "fst (query_rag (serving (JObj [(''answer'', JStr ''42'')])) ''hi'' (JStr ''hybrid'')
         empty_state) = Inr (JObj [(''answer'', JStr ''42'')])
   \<and> \<not> is_error_result (JObj [(''answer'', JStr ''42'')])"
  by (simp add: query_rag_def serving_def prog_defs is_error_result_def)

text \<open>
  C1, amended: in \<open>query_rag\<close> and in \<open>upload_pdfs\<close> (with at least one file), every
  \<open>RequestException\<close> is caught at the call site and becomes the result
  \<open>{"status": "error", "message": "API error: " + str(e)}\<close>, whether the request itself
  raised it (transport failure), \<open>raise_for_status()\<close> raised it (HTTP error status) or
  \<open>response.json()\<close> raised it; a body that decodes is returned to the caller unchanged,
  whatever its shape, a remote-reported error included.
\<close>

theorem request_exceptions_become_error_results:
  "(network E (query_request q m) = Inl (RequestException msg) \<longrightarrow>
      fst (query_rag E q m s) =
        Inr (JObj [(''status'', JStr ''error''), (''message'', JStr (''API error: '' @ msg))]))
   \<and> (network E (query_request q m) = Inr r \<and> http_error r = Some msg \<longrightarrow>
      fst (query_rag E q m s) =
        Inr (JObj [(''status'', JStr ''error''), (''message'', JStr (''API error: '' @ msg))]))
   \<and> (network E (query_request q m) = Inr r \<and> http_error r = None
        \<and> json_result r = Inl (RequestException msg) \<longrightarrow>
      fst (query_rag E q m s) =
        Inr (JObj [(''status'', JStr ''error''), (''message'', JStr (''API error: '' @ msg))]))
   \<and> (network E (query_request q m) = Inr r \<and> http_error r = None
        \<and> json_result r = Inr body \<longrightarrow>
      fst (query_rag E q m s) = Inr body)
   \<and> (files \<noteq> [] \<and> network E (upload_request files) = Inl (RequestException msg) \<longrightarrow>
      fst (upload_pdfs E files s) =
        Inr (JObj [(''status'', JStr ''error''), (''message'', JStr (''API error: '' @ msg))]))
   \<and> (files \<noteq> [] \<and> network E (upload_request files) = Inr r \<and> http_error r = Some msg \<longrightarrow>
      fst (upload_pdfs E files s) =
        Inr (JObj [(''status'', JStr ''error''), (''message'', JStr (''API error: '' @ msg))]))
   \<and> (files \<noteq> [] \<and> network E (upload_request files) = Inr r \<and> http_error r = None
        \<and> json_result r = Inl (RequestException msg) \<longrightarrow>
      fst (upload_pdfs E files s) =
        Inr (JObj [(''status'', JStr ''error''), (''message'', JStr (''API error: '' @ msg))]))
   \<and> (files \<noteq> [] \<and> network E (upload_request files) = Inr r \<and> http_error r = None
        \<and> json_result r = Inr body \<longrightarrow>
      fst (upload_pdfs E files s) = Inr body)"
  by (simp add: query_rag_def upload_pdfs_def query_request_def upload_request_def prog_defs
      Let_def error_dict_def)

theorem request_exceptions_become_error_results_witness:
  "fst (query_rag unreachable ''hi'' (JStr ''hybrid'') empty_state) =
     Inr (JObj [(''status'', JStr ''error''),
                (''message'', JStr ''API error: Connection refused'')])
   \<and> fst (query_rag (failing ''502 Server Error'') ''hi'' (JStr ''hybrid'') empty_state) =
     Inr (JObj [(''status'', JStr ''error''),
                (''message'', JStr ''API error: 502 Server Error'')])
   \<and> fst (query_rag (serving (JObj [(''response'', JStr ''42'')])) ''hi'' (JStr ''hybrid'')
          empty_state) = Inr (JObj [(''response'', JStr ''42'')])
   \<and> fst (upload_pdfs unreachable [sample_file] empty_state) =
     Inr (JObj [(''status'', JStr ''error''),
                (''message'', JStr ''API error: Connection refused'')])
   \<and> fst (upload_pdfs (serving (JObj [(''status'', JStr ''success'')])) [sample_file]
          empty_state) = Inr (JObj [(''status'', JStr ''success'')])"
  using
    request_exceptions_become_error_results
      [of unreachable "''hi''" "JStr ''hybrid''" "''Connection refused''" empty_state _ _
          "[sample_file]"]
    request_exceptions_become_error_results
      [of "failing ''502 Server Error''" "''hi''" "JStr ''hybrid''" "''502 Server Error''"
          empty_state "\<lparr>http_error = Some ''502 Server Error'', json_result = Inr JNull\<rparr>"]
    request_exceptions_become_error_results
      [of "serving (JObj [(''response'', JStr ''42'')])" "''hi''" "JStr ''hybrid''" _
          empty_state
          "\<lparr>http_error = None, json_result = Inr (JObj [(''response'', JStr ''42'')])\<rparr>"
          "JObj [(''response'', JStr ''42'')]"]
    request_exceptions_become_error_results
      [of "serving (JObj [(''status'', JStr ''success'')])" _ _ _
          empty_state
          "\<lparr>http_error = None, json_result = Inr (JObj [(''status'', JStr ''success'')])\<rparr>"
          "JObj [(''status'', JStr ''success'')]" "[sample_file]"]
  by (simp add: unreachable_def failing_def serving_def)

section \<open>Properties of the chat input handler\<close>

lemma handler_not_ready:
  "chat_input_handler E False mode prompt s =
     (Inr (), s\<lparr>messages := messages s @
                  [\<lparr>role = ''user'', content = JStr prompt\<rparr>,
                   \<lparr>role = ''assistant'', content = JStr ''Upload and process some PDFs broo!''\<rparr>],
                ui := ui s @ [Chat_message ''user'', Write (JStr prompt), Chat_message ''assistant'',
                              Warning ''Upload and process some PDFs broo!'']\<rparr>)"
  by (simp add: chat_input_handler_def prog_defs)

lemma handler_ready:
  "chat_input_handler E True mode prompt s =
     bind (lift (fst (query_rag E prompt mode s))) (\<lambda>response.
       bind (lift (py_in ''response'' response)) (\<lambda>has_response.
       if has_response then
         bind (lift (py_getitem response ''response'')) (\<lambda>result.
         bind (emit (Write result)) (\<lambda>_.
         append_message \<lparr>role = ''assistant'', content = result\<rparr>))
       else
         bind (lift (py_get response ''message'' (JStr ''Unknown error occurred''))) (\<lambda>error_msg.
         bind (emit (Error (JStr (''Error: '' @ py_str (repr E) error_msg)))) (\<lambda>_.
         append_message
           \<lparr>role = ''assistant'',
            content = JStr (''Error: '' @ py_str (repr E) error_msg)\<rparr>))))
     (s\<lparr>messages := messages s @ [\<lparr>role = ''user'', content = JStr prompt\<rparr>],
        ui := ui s @ [Chat_message ''user'', Write (JStr prompt), Chat_message ''assistant''],
        requests := requests s @
          [Post (API_URL @ ''/query/'') (Json (JObj [(''query'', JStr prompt), (''mode'', mode)]))]\<rparr>)"
  apply (simp add: chat_input_handler_def)
  apply (subst bind_def, simp add: append_message_def)
  apply (subst bind_def, simp add: emit_def)
  apply (subst bind_def, simp)
  apply (subst bind_def, simp)
  apply (subst bind_def)
  apply (subst query_rag_run [where ?s0.0 = s])
  apply (simp add: lift_def bind_def split: sum.splits)
  done

text \<open>
  C3: if the call to the status endpoint fails, or \<open>check_api_status\<close> returns a document
  whose "status" is anything but "ready" (or is missing), then \<open>api_ready\<close> is \<open>False\<close>;
  and a query submitted while \<open>api_ready\<close> is \<open>False\<close> appends, after the user entry,
  exactly one assistant entry with the fixed warning text and sends no request.
\<close>

theorem not_ready_blocks_queries:
  "(call_fails E (Get (API_URL @ ''/status/'')) \<or>
    (fst (check_api_status E s) = Inr (JObj kvs) \<and> map_of kvs ''status'' \<noteq> Some (JStr ''ready''))
     \<longrightarrow> fst (bind (check_api_status E) (\<lambda>api_status. lift (api_ready_of api_status)) s)
          = Inr False)
   \<and> messages (snd (chat_input_handler E False mode prompt s)) =
       messages s @
         [\<lparr>role = ''user'', content = JStr prompt\<rparr>,
          \<lparr>role = ''assistant'', content = JStr ''Upload and process some PDFs broo!''\<rparr>]
   \<and> requests (snd (chat_input_handler E False mode prompt s)) = requests s"
proof -
  have a: "fst (bind (check_api_status E) (\<lambda>api_status. lift (api_ready_of api_status)) s)
          = Inr False" if "call_fails E (Get (API_URL @ ''/status/''))"
    using check_api_status_fails [OF that, of s]
    by (cases "check_api_status E s")
       (simp add: bind_def lift_def api_ready_of_def error_dict_def eq_str_def)
  have b: "fst (bind (check_api_status E) (\<lambda>api_status. lift (api_ready_of api_status)) s)
          = Inr False"
    if "fst (check_api_status E s) = Inr (JObj kvs)" "map_of kvs ''status'' \<noteq> Some (JStr ''ready'')"
    using that
    by (cases "check_api_status E s")
       (auto simp: bind_def lift_def api_ready_of_def eq_str_def split: option.splits)
  show ?thesis
    using a b by (auto simp: handler_not_ready)
qed

theorem not_ready_blocks_queries_witness:
  "fst (bind (check_api_status unreachable) (\<lambda>api_status. lift (api_ready_of api_status))
         empty_state) = Inr False
   \<and> fst (bind (check_api_status (serving (JObj [(''status'', JStr ''initializing'')])))
           (\<lambda>api_status. lift (api_ready_of api_status)) empty_state) = Inr False"
proof -
  have f: "call_fails unreachable (Get (API_URL @ ''/status/''))"
    by (simp add: call_fails_def unreachable_def)
  have g: "fst (check_api_status (serving (JObj [(''status'', JStr ''initializing'')])) empty_state)
      = Inr (JObj [(''status'', JStr ''initializing'')])"
    by (simp add: check_api_status_def serving_def prog_defs)
  have h: "map_of [(''status'', JStr ''initializing'')] ''status'' \<noteq> Some (JStr ''ready'')"
    by simp
  show ?thesis
    using not_ready_blocks_queries [of unreachable empty_state "[]"] f
      not_ready_blocks_queries [of "serving (JObj [(''status'', JStr ''initializing'')])"
         empty_state "[(''status'', JStr ''initializing'')]"] g h
    by blast
qed

text \<open>
  C4: for a query submitted while ready, if \<open>query_rag\<close> returns a document with a
  "response" field, the handler finishes and the transcript gains the user entry and
  exactly one assistant entry whose content is that field's value.
\<close>

theorem response_field_is_appended:
  assumes "fst (query_rag E prompt mode s) = Inr (JObj kvs)"
    and "map_of kvs ''response'' = Some v"
  shows "fst (chat_input_handler E True mode prompt s) = Inr ()
    \<and> messages (snd (chat_input_handler E True mode prompt s)) =
        messages s @ [\<lparr>role = ''user'', content = JStr prompt\<rparr>,
                      \<lparr>role = ''assistant'', content = v\<rparr>]"
proof -
  have "''response'' \<in> fst ` set kvs"
    using assms(2) by (metis domI dom_map_of_conv_image_fst)
  then show ?thesis
    using assms by (simp add: handler_ready prog_defs)
qed

theorem response_field_is_appended_witness:
  "messages (snd (chat_input_handler (serving (JObj [(''response'', JStr ''Paris'')])) True
       (JStr ''local'') ''capital?'' empty_state)) =
     [\<lparr>role = ''user'', content = JStr ''capital?''\<rparr>,
      \<lparr>role = ''assistant'', content = JStr ''Paris''\<rparr>]"
proof -
  have q: "fst (query_rag (serving (JObj [(''response'', JStr ''Paris'')])) ''capital?''
      (JStr ''local'') empty_state) = Inr (JObj [(''response'', JStr ''Paris'')])"
    by (simp add: query_rag_def serving_def prog_defs)
  have r: "map_of [(''response'', JStr ''Paris'')] ''response'' = Some (JStr ''Paris'')"
    by simp
  show ?thesis
    using response_field_is_appended [OF q r] by (simp add: empty_state_def)
qed

text \<open>
  C5, as the claim states it, fails: a reply that is a JSON list has no "response"
  field (\<open>"response" in response\<close> is \<open>False\<close>), the handler takes the error branch,
  \<open>response.get\<close> raises \<open>AttributeError\<close>, and the transcript has gained the user
  entry and no assistant entry.
\<close>

theorem list_reply_without_response_counterexample:
  "fst (query_rag (serving (JArr [JStr ''no index yet''])) ''capital?'' (JStr ''local'')
         empty_state) = Inr (JArr [JStr ''no index yet''])
   \<and> py_in ''response'' (JArr [JStr ''no index yet'']) = Inr False
   \<and> fst (chat_input_handler (serving (JArr [JStr ''no index yet''])) True (JStr ''local'')
           ''capital?'' empty_state) = Inl AttributeError
   \<and> messages (snd (chat_input_handler (serving (JArr [JStr ''no index yet''])) True
           (JStr ''local'') ''capital?'' empty_state)) =
       [\<lparr>role = ''user'', content = JStr ''capital?''\<rparr>]"
  by (simp add: chat_input_handler_def query_rag_def serving_def empty_state_def prog_defs)

text \<open>
  C5, amended: for a query submitted while ready, if \<open>query_rag\<close> returns a JSON object
  without a "response" field, the handler finishes and the transcript gains the user
  entry and exactly one assistant entry whose content is "Error: " followed by the
  "message" field as \<open>str\<close> prints it (a string prints as itself), or by
  "Unknown error occurred" when there is no "message" field.
\<close>

theorem missing_response_field_is_error_entry:
  assumes "fst (query_rag E prompt mode s) = Inr (JObj kvs)"
    and "map_of kvs ''response'' = None"
  shows "fst (chat_input_handler E True mode prompt s) = Inr ()
    \<and> messages (snd (chat_input_handler E True mode prompt s)) =
        messages s @
          [\<lparr>role = ''user'', content = JStr prompt\<rparr>,
           \<lparr>role = ''assistant'',
            content = JStr (''Error: '' @
              (case map_of kvs ''message'' of
                 Some m \<Rightarrow> py_str (repr E) m
               | None \<Rightarrow> ''Unknown error occurred''))\<rparr>]"
proof -
  have "''response'' \<notin> fst ` set kvs"
    using assms(2) by (metis domIff dom_map_of_conv_image_fst)
  then show ?thesis
    using assms by (simp add: handler_ready prog_defs split: option.splits)
qed

theorem missing_response_field_is_error_entry_witness:
  "messages (snd (chat_input_handler (serving (JObj [(''message'', JStr ''no index'')])) True
       (JStr ''local'') ''capital?'' empty_state)) =
     [\<lparr>role = ''user'', content = JStr ''capital?''\<rparr>,
      \<lparr>role = ''assistant'', content = JStr ''Error: no index''\<rparr>]
   \<and> messages (snd (chat_input_handler (serving (JObj [])) True
       (JStr ''local'') ''capital?'' empty_state)) =
     [\<lparr>role = ''user'', content = JStr ''capital?''\<rparr>,
      \<lparr>role = ''assistant'', content = JStr ''Error: Unknown error occurred''\<rparr>]
   \<and> messages (snd (chat_input_handler unreachable True
       (JStr ''local'') ''capital?'' empty_state)) =
     [\<lparr>role = ''user'', content = JStr ''capital?''\<rparr>,
      \<lparr>role = ''assistant'', content = JStr ''Error: API error: Connection refused''\<rparr>]"
proof -
  have q1: "fst (query_rag (serving (JObj [(''message'', JStr ''no index'')])) ''capital?''
      (JStr ''local'') empty_state) = Inr (JObj [(''message'', JStr ''no index'')])"
    by (simp add: query_rag_def serving_def prog_defs)
  have q2: "fst (query_rag (serving (JObj [])) ''capital?''
      (JStr ''local'') empty_state) = Inr (JObj [])"
    by (simp add: query_rag_def serving_def prog_defs)
  have q3: "fst (query_rag unreachable ''capital?'' (JStr ''local'') empty_state) =
      Inr (JObj [(''status'', JStr ''error''),
                 (''message'', JStr ''API error: Connection refused'')])"
    by (simp add: query_rag_def unreachable_def prog_defs error_dict_def)
  show ?thesis
    using missing_response_field_is_error_entry [OF q1]
      missing_response_field_is_error_entry [OF q2]
      missing_response_field_is_error_entry [OF q3]
    by (simp add: empty_state_def)
qed

section \<open>The transcript\<close>

lemma appends_only_basic [simp]:
  "appends_only (ret x)" "appends_only (raise e)" "appends_only (lift r)"
  "appends_only (emit ev)" "appends_only (send E req)" "appends_only (append_message msg)"
  "appends_only (raise_for_status resp)"
  by (auto simp: appends_only_def prog_defs split: option.splits)

lemma appends_only_bind [intro!]:
  assumes "appends_only m" and "\<And>x. appends_only (f x)"
  shows "appends_only (bind m f)"
  unfolding appends_only_def
proof
  fix s
  obtain r s' where ms: "m s = (r, s')" by (cases "m s")
  have p1: "prefix (messages s) (messages s')"
    using assms(1) ms by (auto simp: appends_only_def dest: spec [of _ s])
  show "prefix (messages s) (messages (snd (bind m f s)))"
  proof (cases r)
    case (Inl e)
    then show ?thesis using ms p1 by (simp add: bind_def)
  next
    case (Inr x)
    have "prefix (messages s') (messages (snd (f x s')))"
      using assms(2) [of x] by (simp add: appends_only_def)
    then show ?thesis using ms p1 Inr by (auto simp: bind_def intro: prefix_order.trans)
  qed
qed

lemma appends_only_except_RequestException [intro!]:
  assumes "appends_only m" and "\<And>x. appends_only (h x)"
  shows "appends_only (except_RequestException m h)"
  unfolding appends_only_def
proof
  fix s
  obtain r s' where ms: "m s = (r, s')" by (cases "m s")
  have p1: "prefix (messages s) (messages s')"
    using assms(1) ms by (auto simp: appends_only_def dest: spec [of _ s])
  have p2: "prefix (messages s') (messages (snd (h x s')))" for x
    using assms(2) [of x] by (simp add: appends_only_def)
  show "prefix (messages s) (messages (snd (except_RequestException m h s)))"
    using ms p1 p2
    by (auto simp: except_RequestException_def split: sum.splits exn.splits
        intro: prefix_order.trans)
qed

lemma appends_only_except_all [intro!]:
  assumes "appends_only m" and "appends_only h"
  shows "appends_only (except_all m h)"
  unfolding appends_only_def
proof
  fix s
  obtain r s' where ms: "m s = (r, s')" by (cases "m s")
  have p1: "prefix (messages s) (messages s')"
    using assms(1) ms by (auto simp: appends_only_def dest: spec [of _ s])
  have p2: "prefix (messages s') (messages (snd (h s')))"
    using assms(2) by (simp add: appends_only_def)
  show "prefix (messages s) (messages (snd (except_all m h s)))"
    using ms p1 p2
    by (auto simp: except_all_def split: sum.splits intro: prefix_order.trans)
qed

lemma appends_only_if [intro!]:
  "(c \<Longrightarrow> appends_only a) \<Longrightarrow> (\<not> c \<Longrightarrow> appends_only b) \<Longrightarrow> appends_only (if c then a else b)"
  by simp

lemma appends_only_for_each [intro!]:
  "(\<And>x. appends_only (body x)) \<Longrightarrow> appends_only (for_each body xs)"
  by (induction xs) auto

lemma appends_only_upload_pdfs: "appends_only (upload_pdfs E files)"
  unfolding upload_pdfs_def Let_def by (intro appends_only_if appends_only_except_RequestException appends_only_bind) simp_all

lemma appends_only_query_rag: "appends_only (query_rag E q m)"
  unfolding query_rag_def by (intro appends_only_except_RequestException appends_only_bind) simp_all

lemma appends_only_check_api_status: "appends_only (check_api_status E)"
  unfolding check_api_status_def by (intro appends_only_except_all appends_only_bind) simp_all

lemma appends_only_get_available_modes: "appends_only (get_available_modes E)"
  unfolding get_available_modes_def by (intro appends_only_except_all appends_only_bind) simp_all

lemma appends_only_show_file_result: "appends_only (show_file_result E fr)"
  unfolding show_file_result_def by (intro appends_only_bind) simp_all

lemma appends_only_process_pdfs: "appends_only (process_pdfs E files)"
  unfolding process_pdfs_def
  by (intro appends_only_if appends_only_bind appends_only_for_each
      appends_only_upload_pdfs appends_only_show_file_result) simp_all

lemma appends_only_select_mode: "appends_only (select_mode E inp)"
  unfolding select_mode_def
  by (intro appends_only_bind appends_only_get_available_modes) simp_all

lemma appends_only_display_messages: "appends_only display_messages"
proof -
  have "appends_only (for_each (\<lambda>message.
             bind (emit (Chat_message (role message))) (\<lambda>_.
             emit (Write (content message)))) xs)" for xs
    by (intro appends_only_for_each appends_only_bind) simp_all
  then show ?thesis
    unfolding appends_only_def display_messages_def by blast
qed

lemma appends_only_chat_input_handler: "appends_only (chat_input_handler E r m p)"
  unfolding chat_input_handler_def
  by (intro appends_only_if appends_only_bind appends_only_query_rag) simp_all

lemma appends_only_chat: "appends_only (chat E r m ci)"
  unfolding chat_def
  by (auto split: option.splits intro: appends_only_chat_input_handler)

lemma appends_only_page: "appends_only (page E inp)"
  unfolding page_def
  by (intro appends_only_if appends_only_bind appends_only_check_api_status
      appends_only_process_pdfs appends_only_select_mode appends_only_display_messages
      appends_only_chat) simp_all

lemma display_loop:
  "for_each (\<lambda>message.
             bind (emit (Chat_message (role message))) (\<lambda>_.
             emit (Write (content message)))) xs s =
   (Inr (), s\<lparr>ui := ui s @ concat (map (\<lambda>m. [Chat_message (role m), Write (content m)]) xs)\<rparr>)"
  by (induction xs arbitrary: s) (simp_all add: prog_defs)

lemma keeps_transcript_basic [simp]:
  "keeps_transcript (ret x)" "keeps_transcript (raise e)" "keeps_transcript (lift r)"
  "keeps_transcript (emit ev)" "keeps_transcript (send E req)"
  "keeps_transcript (raise_for_status resp)"
  by (auto simp: keeps_transcript_def prog_defs split: option.splits)

lemma keeps_transcript_bind:
  assumes "keeps_transcript m" and "\<And>x. keeps_transcript (f x)"
  shows "keeps_transcript (bind m f)"
  unfolding keeps_transcript_def
proof
  fix s
  obtain r s' where ms: "m s = (r, s')" by (cases "m s")
  have k1: "messages s' = messages s"
    using assms(1) ms by (auto simp: keeps_transcript_def dest: spec [of _ s])
  show "messages (snd (bind m f s)) = messages s"
  proof (cases r)
    case (Inl e)
    then show ?thesis using ms k1 by (simp add: bind_def)
  next
    case (Inr x)
    have "messages (snd (f x s')) = messages s'"
      using assms(2) [of x] by (simp add: keeps_transcript_def)
    then show ?thesis using ms k1 Inr by (simp add: bind_def)
  qed
qed

lemma keeps_transcript_except_RequestException:
  assumes "keeps_transcript m" and "\<And>x. keeps_transcript (h x)"
  shows "keeps_transcript (except_RequestException m h)"
  unfolding keeps_transcript_def
proof
  fix s
  obtain r s' where ms: "m s = (r, s')" by (cases "m s")
  have k1: "messages s' = messages s"
    using assms(1) ms by (auto simp: keeps_transcript_def dest: spec [of _ s])
  have k2: "messages (snd (h x s')) = messages s'" for x
    using assms(2) [of x] by (simp add: keeps_transcript_def)
  show "messages (snd (except_RequestException m h s)) = messages s"
    using ms k1 k2
    by (auto simp: except_RequestException_def split: sum.splits exn.splits)
qed

lemma keeps_transcript_except_all:
  assumes "keeps_transcript m" and "keeps_transcript h"
  shows "keeps_transcript (except_all m h)"
  unfolding keeps_transcript_def
proof
  fix s
  obtain r s' where ms: "m s = (r, s')" by (cases "m s")
  have k1: "messages s' = messages s"
    using assms(1) ms by (auto simp: keeps_transcript_def dest: spec [of _ s])
  have k2: "messages (snd (h s')) = messages s'"
    using assms(2) by (simp add: keeps_transcript_def)
  show "messages (snd (except_all m h s)) = messages s"
    using ms k1 k2 by (auto simp: except_all_def split: sum.splits)
qed

lemma keeps_transcript_if:
  "(c \<Longrightarrow> keeps_transcript a) \<Longrightarrow> (\<not> c \<Longrightarrow> keeps_transcript b) \<Longrightarrow>
   keeps_transcript (if c then a else b)"
  by simp

lemma keeps_transcript_for_each:
  "(\<And>x. keeps_transcript (body x)) \<Longrightarrow> keeps_transcript (for_each body xs)"
  by (induction xs) (auto intro: keeps_transcript_bind)

lemma keeps_transcript_upload_pdfs: "keeps_transcript (upload_pdfs E files)"
  unfolding upload_pdfs_def Let_def
  by (intro keeps_transcript_if keeps_transcript_except_RequestException keeps_transcript_bind)
     simp_all

lemma keeps_transcript_check_api_status: "keeps_transcript (check_api_status E)"
  unfolding check_api_status_def
  by (intro keeps_transcript_except_all keeps_transcript_bind) simp_all

lemma keeps_transcript_get_available_modes: "keeps_transcript (get_available_modes E)"
  unfolding get_available_modes_def
  by (intro keeps_transcript_except_all keeps_transcript_bind) simp_all

lemma keeps_transcript_show_file_result: "keeps_transcript (show_file_result E fr)"
  unfolding show_file_result_def by (intro keeps_transcript_bind) simp_all

lemma keeps_transcript_process_pdfs: "keeps_transcript (process_pdfs E files)"
  unfolding process_pdfs_def
  by (intro keeps_transcript_if keeps_transcript_bind keeps_transcript_for_each
      keeps_transcript_upload_pdfs keeps_transcript_show_file_result) simp_all

lemma keeps_transcript_select_mode: "keeps_transcript (select_mode E inp)"
  unfolding select_mode_def
  by (intro keeps_transcript_bind keeps_transcript_get_available_modes) simp_all

lemma keeps_transcript_display_messages: "keeps_transcript display_messages"
  by (simp add: keeps_transcript_def display_messages_def display_loop)

lemma keeps_transcript_page_without_prompt:
  "keeps_transcript (page E (inp\<lparr>chat_input := None\<rparr>))"
  unfolding page_def
  by (intro keeps_transcript_if keeps_transcript_bind keeps_transcript_check_api_status
      keeps_transcript_process_pdfs keeps_transcript_select_mode
      keeps_transcript_display_messages) (simp_all add: chat_def)

text \<open>
  C7: the transcript of a new session starts empty, and a run that has nothing to
  append leaves the transcript as the session held it; a run of the script, and the
  chat input handler in particular, only appends to it (the transcript the session held
  before is a prefix of the transcript after, also when the run ends in an exception);
  and the display loop writes the entries from first to last, each as its role followed
  by its content.
\<close>

theorem transcript_is_append_only:
  "init_messages None = []
   \<and> init_messages (Some ms) = ms
   \<and> messages (snd (script E (inp\<lparr>chat_input := None\<rparr>) None)) = []
   \<and> messages (snd (script E (inp\<lparr>chat_input := None\<rparr>) (Some ms))) = ms
   \<and> prefix ms (messages (snd (script E inp (Some ms))))
   \<and> prefix (init_messages session) (messages (snd (script E inp session)))
   \<and> prefix (messages s) (messages (snd (chat_input_handler E api_ready mode prompt s)))
   \<and> display_messages s =
       (Inr (), s\<lparr>ui := ui s @
          concat (map (\<lambda>m. [Chat_message (role m), Write (content m)]) (messages s))\<rparr>)"
proof -
  have p: "prefix (init_messages session') (messages (snd (script E inp session')))"
    for session'
  proof -
    have "prefix (messages s0) (messages (snd (page E inp s0)))" for s0
      using appends_only_page [of E inp] by (simp add: appends_only_def)
    from this [of "\<lparr>messages = init_messages session', requests = [], ui = []\<rparr>"]
    show ?thesis by (simp add: script_def)
  qed
  have k: "messages (snd (script E (inp\<lparr>chat_input := None\<rparr>) session')) =
      init_messages session'" for session'
  proof -
    have "messages (snd (page E (inp\<lparr>chat_input := None\<rparr>) s0)) = messages s0" for s0
      using keeps_transcript_page_without_prompt [of E inp]
      by (simp add: keeps_transcript_def)
    from this [of "\<lparr>messages = init_messages session', requests = [], ui = []\<rparr>"]
    show ?thesis by (simp add: script_def)
  qed
  have h: "prefix (messages s) (messages (snd (chat_input_handler E api_ready mode prompt s)))"
    using appends_only_chat_input_handler by (simp add: appends_only_def)
  have i: "init_messages None = []" "init_messages (Some ms) = ms"
    by (simp_all add: init_messages_def)
  from p [of "Some ms"] p [of session] k [of None] k [of "Some ms"] h i show ?thesis
    by (simp add: display_messages_def display_loop)
qed

text \<open>
  C9, as the claim states it, fails: when the query endpoint answers with a JSON list,
  \<open>"response" in response\<close> is \<open>False\<close>, \<open>response.get\<close> raises \<open>AttributeError\<close>, and
  the transcript has gained the user entry only.
\<close>

theorem non_object_answer_counterexample:
  "chat_input_handler (serving (JArr [])) True (JStr ''hybrid'') ''hi'' empty_state =
     (Inl AttributeError,
      \<lparr>messages = [\<lparr>role = ''user'', content = JStr ''hi''\<rparr>],
       requests = [Post (API_URL @ ''/query/'')
                     (Json (JObj [(''query'', JStr ''hi''), (''mode'', JStr ''hybrid'')]))],
       ui = [Chat_message ''user'', Write (JStr ''hi''), Chat_message ''assistant'']\<rparr>)"
  by (simp add: chat_input_handler_def query_rag_def serving_def empty_state_def prog_defs)

lemma handler_user_first:
  "take (Suc (length (messages s))) (messages (snd (chat_input_handler E api_ready mode prompt s)))
     = messages s @ [\<lparr>role = ''user'', content = JStr prompt\<rparr>]"
proof (cases api_ready)
  case False
  then show ?thesis by (simp add: handler_not_ready)
next
  case True
  have "appends_only (bind (lift (fst (query_rag E prompt mode s))) (\<lambda>response.
       bind (lift (py_in ''response'' response)) (\<lambda>has_response.
       if has_response then
         bind (lift (py_getitem response ''response'')) (\<lambda>result.
         bind (emit (Write result)) (\<lambda>_.
         append_message \<lparr>role = ''assistant'', content = result\<rparr>))
       else
         bind (lift (py_get response ''message'' (JStr ''Unknown error occurred''))) (\<lambda>error_msg.
         bind (emit (Error (JStr (''Error: '' @ py_str (repr E) error_msg)))) (\<lambda>_.
         append_message
           \<lparr>role = ''assistant'',
            content = JStr (''Error: '' @ py_str (repr E) error_msg)\<rparr>)))))"
    by (intro appends_only_bind appends_only_if) simp_all
  then have "prefix (messages s @ [\<lparr>role = ''user'', content = JStr prompt\<rparr>])
     (messages (snd (chat_input_handler E True mode prompt s)))"
    unfolding handler_ready appends_only_def
    by (metis (no_types, lifting) app_state.select_convs(1) app_state.surjective
        app_state.update_convs(1,2,3))
  then show ?thesis
    using True by (auto simp: prefix_def)
qed

text \<open>
  C9, amended: a submitted query appends exactly two entries, the user entry with the
  exact prompt followed by exactly one assistant entry, when the system is not ready and
  when \<open>query_rag\<close> returns a JSON object (an answer, a remote error, or the error result
  of a caught \<open>RequestException\<close>); in every case, an exception included, the first
  entry appended is the user entry.
\<close>

theorem query_appends_two_entries:
  "messages (snd (chat_input_handler E False mode prompt s)) =
     messages s @
       [\<lparr>role = ''user'', content = JStr prompt\<rparr>,
        \<lparr>role = ''assistant'', content = JStr ''Upload and process some PDFs broo!''\<rparr>]
   \<and> (fst (query_rag E prompt mode s) = Inr (JObj kvs) \<longrightarrow>
       messages (snd (chat_input_handler E True mode prompt s)) =
         messages s @
           [\<lparr>role = ''user'', content = JStr prompt\<rparr>,
            \<lparr>role = ''assistant'',
             content =
               (case map_of kvs ''response'' of
                  Some v \<Rightarrow> v
                | None \<Rightarrow>
                    JStr (''Error: '' @
                      (case map_of kvs ''message'' of
                         Some m \<Rightarrow> py_str (repr E) m
                       | None \<Rightarrow> ''Unknown error occurred'')))\<rparr>])
   \<and> take (Suc (length (messages s)))
         (messages (snd (chat_input_handler E api_ready mode prompt s))) =
       messages s @ [\<lparr>role = ''user'', content = JStr prompt\<rparr>]"
proof -
  have "messages (snd (chat_input_handler E True mode prompt s)) =
         messages s @
           [\<lparr>role = ''user'', content = JStr prompt\<rparr>,
            \<lparr>role = ''assistant'',
             content =
               (case map_of kvs ''response'' of
                  Some v \<Rightarrow> v
                | None \<Rightarrow>
                    JStr (''Error: '' @
                      (case map_of kvs ''message'' of
                         Some m \<Rightarrow> py_str (repr E) m
                       | None \<Rightarrow> ''Unknown error occurred'')))\<rparr>]"
    if q: "fst (query_rag E prompt mode s) = Inr (JObj kvs)"
  proof (cases "map_of kvs ''response''")
    case None
    then have "''response'' \<notin> fst ` set kvs"
      by (metis domIff dom_map_of_conv_image_fst)
    then show ?thesis
      using q None by (simp add: handler_ready prog_defs split: option.splits)
  next
    case (Some v)
    then have "''response'' \<in> fst ` set kvs"
      by (metis domI dom_map_of_conv_image_fst)
    then show ?thesis
      using q Some by (simp add: handler_ready prog_defs)
  qed
  then show ?thesis
    by (simp add: handler_not_ready handler_user_first)
qed

theorem query_appends_two_entries_witness:
  "messages (snd (chat_input_handler (serving (JObj [(''response'', JStr ''42'')])) True
       (JStr ''hybrid'') ''hi'' empty_state)) =
     [\<lparr>role = ''user'', content = JStr ''hi''\<rparr>, \<lparr>role = ''assistant'', content = JStr ''42''\<rparr>]"
proof -
  have q: "fst (query_rag (serving (JObj [(''response'', JStr ''42'')])) ''hi'' (JStr ''hybrid'')
      empty_state) = Inr (JObj [(''response'', JStr ''42'')])"
    by (simp add: query_rag_def serving_def prog_defs)
  show ?thesis
    using query_appends_two_entries [of "serving (JObj [(''response'', JStr ''42'')])"
        "JStr ''hybrid''" "''hi''" empty_state "[(''response'', JStr ''42'')]"] q
    by (simp add: empty_state_def)
qed

section \<open>Upload results and mode selection\<close>

lemma markers_differ: "success_marker \<noteq> failure_marker"
  by (simp add: success_marker_def failure_marker_def)

text \<open>
  C8: the icon of a per-file result is a function of its "status" value alone:
  "success" gives the success marker, every other value gives the failure marker, and
  the two markers differ; the line shown for a result with a "status" and a "file" is
  that icon, a space and the file.
\<close>

theorem status_icon_mapping:
  "status_icon (JStr ''success'') = success_marker
   \<and> (status \<noteq> JStr ''success'' \<longrightarrow> status_icon status = failure_marker)
   \<and> success_marker \<noteq> failure_marker
   \<and> (map_of kvs ''status'' = Some status \<and> map_of kvs ''file'' = Some file \<longrightarrow>
        show_file_result E (JObj kvs) s =
          (Inr (), s\<lparr>ui := ui s @ [Text (status_icon status @ '' '' @ py_str (repr E) file)]\<rparr>))"
  by (simp add: status_icon_def eq_str_def markers_differ show_file_result_def prog_defs)

theorem status_icon_mapping_witness:
  "status_icon (JStr ''error'') = failure_marker
   \<and> show_file_result unreachable
        (JObj [(''file'', JStr ''a.pdf''), (''status'', JStr ''error'')]) empty_state =
      (Inr (), empty_state\<lparr>ui := ui empty_state @ [Text (failure_marker @ '' a.pdf'')]\<rparr>)"
  using status_icon_mapping [of "JStr ''error''" "[(''file'', JStr ''a.pdf''), (''status'', JStr ''error'')]"
     "JStr ''a.pdf''" unreachable empty_state]
  by simp

lemma key_eq_refl [simp]: "key_eq a a"
  by (cases a) auto











end
